theory Spec2Isabelle
  imports Complex_Main "HOL-Library.Multiset" "HOL-Library.Product_Lexorder"
begin

section \<open>Conventions of the embedding\<close>

text \<open>
  The Python sources \<^verbatim>\<open>Dobby_celestial_mechanics.py\<close> and
  \<^verbatim>\<open>Dobby_bright_stars.py\<close> (and their single-file predecessor
  \<^verbatim>\<open>PyCelestialObjects_V0-2.py\<close>, which holds the same functions verbatim) are
  embedded as HOL functions.

  \<^item> Python \<^verbatim>\<open>float\<close> values are idealised as \<^typ>\<open>real\<close>: \<^verbatim>\<open>math.pi\<close> is
    \<^const>\<open>pi\<close>, and \<open>+\<close>, \<open>-\<close>, \<open>*\<close>, \<open>/\<close> are exact.
  \<^item> In \<^verbatim>\<open>cartesian\<close>, \<^verbatim>\<open>area\<close> and \<^verbatim>\<open>angle\<close>, \<^verbatim>\<open>math.sin\<close> and \<^verbatim>\<open>math.cos\<close> are the
    exact \<^const>\<open>sin\<close> and \<^const>\<open>cos\<close>.
  \<^item> Whether \<^verbatim>\<open>math.asin\<close> and \<^verbatim>\<open>math.acos\<close> raise depends on the last digits of what
    \<^verbatim>\<open>math.sin\<close> and \<^verbatim>\<open>math.cos\<close> return. In \<open>angle_fp\<close> and \<open>RA_DEC_to_ALT_AZ\<close> these two
    library functions are therefore parameters \<open>msin\<close> and \<open>mcos\<close>: a theorem about them
    holds for every pair of functions, the exact ones and the ones of the C library
    alike, and a concrete run takes the values the C library returns in IEEE double
    precision at the arguments of that run.
  \<^item> Python \<^verbatim>\<open>int\<close> values are \<^typ>\<open>int\<close>.
  \<^item> Every exception the code can raise is a value: a function that can raise returns
    \<open>py_error + 'a\<close>, with \<open>Inl\<close> the exception.
\<close>

datatype py_error = ValueError | ZeroDivisionError | KeyError

text \<open>\<^verbatim>\<open>math.sqrt\<close>, \<^verbatim>\<open>math.asin\<close> and \<^verbatim>\<open>math.acos\<close> raise
  \<^verbatim>\<open>ValueError: math domain error\<close> outside their domain; float division raises
  \<^verbatim>\<open>ZeroDivisionError\<close> on a zero divisor.\<close>

definition py_sqrt :: "real \<Rightarrow> py_error + real" where
  "py_sqrt x = (if x < 0 then Inl ValueError else Inr (sqrt x))"

definition py_asin :: "real \<Rightarrow> py_error + real" where
  "py_asin x = (if x < -1 \<or> 1 < x then Inl ValueError else Inr (arcsin x))"

definition py_acos :: "real \<Rightarrow> py_error + real" where
  "py_acos x = (if x < -1 \<or> 1 < x then Inl ValueError else Inr (arccos x))"

definition py_div :: "real \<Rightarrow> real \<Rightarrow> py_error + real" where
  "py_div x y = (if y = 0 then Inl ZeroDivisionError else Inr (x / y))"

text \<open>\<^verbatim>\<open>math.radians\<close> of the standard library.\<close>

definition radians :: "real \<Rightarrow> real" where
  "radians d = d * pi / 180"

section \<open>Data model\<close>

text \<open>\<^verbatim>\<open>Star = collections.namedtuple("Star", "Rank, Name, Beyer, Mag_v, RA, DEC, Alt, Az")\<close>\<close>

record Star =
  Rank :: int
  Name :: string
  Beyer :: string
  Mag_v :: real
  RA :: real
  DEC :: real
  Alt :: real
  Az :: real

type_synonym vec3 = "real \<times> real \<times> real"

section \<open>Helper functions of \<^verbatim>\<open>Dobby_celestial_mechanics.py\<close>\<close>

definition HMS_to_decimal_time :: "int \<Rightarrow> int \<Rightarrow> int \<Rightarrow> real" where
  "HMS_to_decimal_time hours minutes seconds =
     of_int hours + of_int minutes / 60 + of_int seconds / 3600"

definition rad2deg :: "real \<Rightarrow> real" where
  "rad2deg angle = 180 * angle / pi"

definition deg2rad :: "real \<Rightarrow> real" where
  "deg2rad angle = pi * angle / 180"

definition cartesian :: "Star \<Rightarrow> vec3" where
  "cartesian star =
     (let Alt' = radians (Alt star);
          Az' = radians (Az star);
          x = cos Alt' * cos Az';
          y = cos Alt' * sin Az';
          z = sin Alt'
      in (x, y, z))"

text \<open>Tuple indexing \<^verbatim>\<open>v[0]\<close>, \<^verbatim>\<open>v[1]\<close>, \<^verbatim>\<open>v[2]\<close>.\<close>

definition v0 :: "vec3 \<Rightarrow> real" where "v0 v = fst v"
definition v1 :: "vec3 \<Rightarrow> real" where "v1 v = fst (snd v)"
definition v2 :: "vec3 \<Rightarrow> real" where "v2 v = snd (snd v)"

definition vector_product :: "vec3 \<Rightarrow> vec3 \<Rightarrow> vec3" where
  "vector_product a b =
     (let r0 = v1 a * v2 b - v2 a * v1 b;
          r1 = v2 a * v0 b - v0 a * v2 b;
          r2 = v0 a * v1 b - v1 a * v0 b
      in (r0, r1, r2))"

text \<open>The loop \<^verbatim>\<open>for component in v: sum_sq += component**2\<close> is a left fold over the
  components of the tuple.\<close>

definition components :: "vec3 \<Rightarrow> real list" where
  "components v = [v0 v, v1 v, v2 v]"

definition vector_norm :: "vec3 \<Rightarrow> py_error + real" where
  "vector_norm v = py_sqrt (fold (\<lambda>component sum_sq. sum_sq + component ^ 2) (components v) 0)"

text \<open>\<^verbatim>\<open>area\<close>: the third component of \<^verbatim>\<open>edge2\<close> is \<^verbatim>\<open>v1[2]-v2[2]\<close> in the
  source, and is kept so.\<close>

definition area :: "Star \<Rightarrow> Star \<Rightarrow> Star \<Rightarrow> py_error + real" where
  "area s1 s2 s3 =
     (let p1 = cartesian s1;
          p2 = cartesian s2;
          p3 = cartesian s3;
          edge1 = (v0 p1 - v0 p2, v1 p1 - v1 p2, v2 p1 - v2 p2);
          edge2 = (v0 p1 - v0 p3, v1 p1 - v1 p3, v2 p1 - v2 p2)
      in case vector_norm (vector_product edge1 edge2) of
           Inl e \<Rightarrow> Inl e
         | Inr n \<Rightarrow> Inr (0.5 * n))"

definition angle :: "Star \<Rightarrow> Star \<Rightarrow> py_error + real" where
  "angle s1 s2 =
     (let alt1 = radians (Alt s1);
          az1 = radians (Az s1);
          alt2 = radians (Alt s2);
          az2 = radians (Az s2);
          cos_angle = cos alt1 * cos alt2 * cos (az1 - az2) + sin alt1 * sin alt2
      in py_acos cos_angle)"

text \<open>\<^verbatim>\<open>angle\<close> once more, with \<^verbatim>\<open>math.sin\<close> and \<^verbatim>\<open>math.cos\<close> as parameters; with the
  exact functions it is \<open>angle\<close> (lemma \<open>angle_fp_exact\<close> below).\<close>

definition angle_fp :: "(real \<Rightarrow> real) \<Rightarrow> (real \<Rightarrow> real) \<Rightarrow> Star \<Rightarrow> Star \<Rightarrow> py_error + real" where
  "angle_fp msin mcos s1 s2 =
     (let alt1 = radians (Alt s1);
          az1 = radians (Az s1);
          alt2 = radians (Alt s2);
          az2 = radians (Az s2);
          cos_angle = mcos alt1 * mcos alt2 * mcos (az1 - az2) + msin alt1 * msin alt2
      in py_acos cos_angle)"

subsection \<open>The triangle area as the specification words it\<close>

text \<open>\<open>0.5 \<times> \<parallel>(p1 - p2) \<times> (p1 - p3)\<parallel>\<close> on the cartesian projections: both edge vectors
  are full differences of position vectors.\<close>

definition vec_sub :: "vec3 \<Rightarrow> vec3 \<Rightarrow> vec3" where
  "vec_sub a b = (v0 a - v0 b, v1 a - v1 b, v2 a - v2 b)"

definition euclid_norm :: "vec3 \<Rightarrow> real" where
  "euclid_norm v = sqrt ((v0 v)\<^sup>2 + (v1 v)\<^sup>2 + (v2 v)\<^sup>2)"

definition triangleArea_spec :: "Star \<Rightarrow> Star \<Rightarrow> Star \<Rightarrow> real" where
  "triangleArea_spec s1 s2 s3 =
     0.5 * euclid_norm (vector_product (vec_sub (cartesian s1) (cartesian s2))
                                       (vec_sub (cartesian s1) (cartesian s3)))"

text \<open>A star record at a given horizontal position; the other fields do not enter the
  geometry.\<close>

definition star_at :: "real \<Rightarrow> real \<Rightarrow> Star" where
  "star_at alt az =
     \<lparr>Rank = 0, Name = [], Beyer = [], Mag_v = 0, RA = 0, DEC = 0, Alt = alt, Az = az\<rparr>"

text \<open>The number that \<^verbatim>\<open>area\<close> computes (the norm is the square root of a sum of
  squares, so \<^verbatim>\<open>math.sqrt\<close> does not raise; lemma \<open>area_value\<close> below).\<close>

definition area_real :: "Star \<Rightarrow> Star \<Rightarrow> Star \<Rightarrow> real" where
  "area_real s1 s2 s3 =
     0.5 * euclid_norm (vector_product
        (vec_sub (cartesian s1) (cartesian s2))
        (v0 (cartesian s1) - v0 (cartesian s3), v1 (cartesian s1) - v1 (cartesian s3),
         v2 (cartesian s1) - v2 (cartesian s2)))"

section \<open>Time calculations\<close>

text \<open>\<^verbatim>\<open>//\<close> on Python integers is floor division, \<^verbatim>\<open>%\<close> with a positive modulus the
  non-negative remainder: \<open>div\<close> and \<open>mod\<close> on \<^typ>\<open>int\<close>.\<close>

definition days_from_J2000_until_year :: "int \<Rightarrow> real" where
  "days_from_J2000_until_year year =
     of_int ((year - 1998) * 365 + (year - 1998 + 1) div 4) - 731.5"

definition DAYS_TIL_MONTH :: "(int \<times> int) list" where
  "DAYS_TIL_MONTH =
     [(1, 0), (2, 31), (3, 59), (4, 90), (5, 120), (6, 151),
      (7, 181), (8, 212), (9, 243), (10, 273), (11, 304), (12, 334)]"

text \<open>Dictionary subscription \<^verbatim>\<open>d[k]\<close> raises \<^verbatim>\<open>KeyError\<close> on a missing key.\<close>

definition dict_get :: "('k \<times> 'v) list \<Rightarrow> 'k \<Rightarrow> py_error + 'v" where
  "dict_get d k = (case map_of d k of None \<Rightarrow> Inl KeyError | Some v \<Rightarrow> Inr v)"

definition days_until_month_begins :: "int \<Rightarrow> int \<Rightarrow> py_error + int" where
  "days_until_month_begins year month =
     (if year mod 4 = 0 \<and> month > 2
      then (case dict_get DAYS_TIL_MONTH month of
              Inl e \<Rightarrow> Inl e
            | Inr d \<Rightarrow> Inr (d + 1))
      else dict_get DAYS_TIL_MONTH month)"

definition days_from_J2000 ::
    "int \<Rightarrow> int \<Rightarrow> int \<Rightarrow> int \<Rightarrow> int \<Rightarrow> int \<Rightarrow> py_error + real" where
  "days_from_J2000 year month day hours minutes seconds =
     (let days1 = days_from_J2000_until_year year
      in case days_until_month_begins year month of
           Inl e \<Rightarrow> Inl e
         | Inr m \<Rightarrow>
             (let days2 = m + day;
                  days3 = HMS_to_decimal_time hours minutes seconds / 24
              in Inr (days1 + of_int days2 + days3)))"

section \<open>Equatorial to horizontal coordinates\<close>

text \<open>\<^verbatim>\<open>RA_DEC_to_ALT_AZ\<close> calls \<^verbatim>\<open>math.asin\<close>, divides, and calls
  \<^verbatim>\<open>math.acos\<close>, in this order, with no test before any of them; each can raise.
  \<open>msin\<close> and \<open>mcos\<close> stand for \<^verbatim>\<open>math.sin\<close> and \<^verbatim>\<open>math.cos\<close>. The argument
  \<^verbatim>\<open>raD\<close> is not used by the source either.\<close>

definition RA_DEC_to_ALT_AZ ::
    "(real \<Rightarrow> real) \<Rightarrow> (real \<Rightarrow> real) \<Rightarrow> real \<Rightarrow> real \<Rightarrow> real \<Rightarrow> real \<Rightarrow> py_error + (real \<times> real)" where
  "RA_DEC_to_ALT_AZ msin mcos raD decD haD latD =
     (let dec = deg2rad decD;
          ha = deg2rad haD;
          lat = deg2rad latD;
          sin_alt = (msin dec * msin lat) + (mcos dec * mcos lat * mcos ha)
      in case py_asin sin_alt of
           Inl e \<Rightarrow> Inl e
         | Inr alt \<Rightarrow>
            (case py_div (msin dec - msin alt * msin lat) (mcos alt * mcos lat) of
               Inl e \<Rightarrow> Inl e
             | Inr cos_a \<Rightarrow>
                (case py_acos cos_a of
                   Inl e \<Rightarrow> Inl e
                 | Inr a \<Rightarrow>
                    (let alt' = rad2deg alt;
                         az = (if msin ha < 0 then rad2deg a else 360 - rad2deg a)
                     in Inr (alt', az)))))"

text \<open>The values of the local variable \<^verbatim>\<open>sin_alt\<close>, of the divisor
  \<^verbatim>\<open>math.cos(alt) * math.cos(lat)\<close> of the azimuth step and of the quotient
  \<^verbatim>\<open>cos_a\<close>, as functions of the inputs.\<close>

definition sin_alt_of :: "(real \<Rightarrow> real) \<Rightarrow> (real \<Rightarrow> real) \<Rightarrow> real \<Rightarrow> real \<Rightarrow> real \<Rightarrow> real" where
  "sin_alt_of msin mcos decD haD latD =
     msin (deg2rad decD) * msin (deg2rad latD)
       + mcos (deg2rad decD) * mcos (deg2rad latD) * mcos (deg2rad haD)"

definition azimuth_divisor :: "(real \<Rightarrow> real) \<Rightarrow> (real \<Rightarrow> real) \<Rightarrow> real \<Rightarrow> real \<Rightarrow> real \<Rightarrow> real" where
  "azimuth_divisor msin mcos decD haD latD =
     mcos (arcsin (sin_alt_of msin mcos decD haD latD)) * mcos (deg2rad latD)"

definition cos_a_of :: "(real \<Rightarrow> real) \<Rightarrow> (real \<Rightarrow> real) \<Rightarrow> real \<Rightarrow> real \<Rightarrow> real \<Rightarrow> real" where
  "cos_a_of msin mcos decD haD latD =
     (msin (deg2rad decD) - msin (arcsin (sin_alt_of msin mcos decD haD latD)) * msin (deg2rad latD))
       / azimuth_divisor msin mcos decD haD latD"

text \<open>The value of the local variable \<^verbatim>\<open>cos_angle\<close> of \<^verbatim>\<open>angle\<close>.\<close>

definition cos_angle_of :: "(real \<Rightarrow> real) \<Rightarrow> (real \<Rightarrow> real) \<Rightarrow> Star \<Rightarrow> Star \<Rightarrow> real" where
  "cos_angle_of msin mcos s1 s2 =
     mcos (radians (Alt s1)) * mcos (radians (Alt s2)) * mcos (radians (Az s1) - radians (Az s2))
       + msin (radians (Alt s1)) * msin (radians (Alt s2))"

subsection \<open>The C library's values in two runs\<close>

text \<open>
  \<^verbatim>\<open>math.sin\<close> and \<^verbatim>\<open>math.cos\<close> return IEEE doubles, which are rationals. The
  functions below return, at the arguments of one run each, the doubles the C library
  returns there, and the exact value elsewhere (at 0 the library is exact:
  \<^verbatim>\<open>math.sin(0.0)\<close> is \<open>0.0\<close> and \<^verbatim>\<open>math.cos(0.0)\<close> is \<open>1.0\<close>).

  The run \<^verbatim>\<open>angle(s, s)\<close> for a star at altitude -82:
  \<^verbatim>\<open>math.sin(math.radians(-82))\<close> is \<open>-0.9902680687415704\<close> and
  \<^verbatim>\<open>math.cos(math.radians(-82))\<close> is \<open>0.13917310096006547\<close>.
\<close>

definition libm_sin_82 :: "real \<Rightarrow> real" where
  "libm_sin_82 x =
     (if x = radians (- 82) then - (4459770905381437 / 4503599627370496) else sin x)"

definition libm_cos_82 :: "real \<Rightarrow> real" where
  "libm_cos_82 x =
     (if x = radians (- 82) then 2507119702494989 / 18014398509481984 else cos x)"

text \<open>
  The run \<^verbatim>\<open>RA_DEC_to_ALT_AZ(0, 30, 0, 90)\<close>, an observer at the pole:
  \<^verbatim>\<open>math.sin(dec)\<close> is \<open>0.49999999999999994\<close>, \<^verbatim>\<open>math.cos(dec)\<close> is
  \<open>0.8660254037844387\<close>, \<^verbatim>\<open>math.sin(lat)\<close> is \<open>1.0\<close>, \<^verbatim>\<open>math.cos(lat)\<close> is
  \<open>6.123233995736766e-17\<close>; and for \<^verbatim>\<open>alt = math.asin(sin_alt)\<close>,
  \<^verbatim>\<open>math.sin(alt)\<close> is \<open>0.5\<close> and \<^verbatim>\<open>math.cos(alt)\<close> is \<open>0.8660254037844386\<close>.
\<close>

definition libm_sin_pole0 :: "real \<Rightarrow> real" where
  "libm_sin_pole0 x =
     (if x = deg2rad 30 then 9007199254740991 / 18014398509481984
      else if x = deg2rad 90 then 1
      else sin x)"

definition libm_cos_pole0 :: "real \<Rightarrow> real" where
  "libm_cos_pole0 x =
     (if x = deg2rad 30 then 7800463371553963 / 9007199254740992
      else if x = deg2rad 90 then 4967757600021511 / 81129638414606681695789005144064
      else cos x)"

definition sin_alt_pole :: real where
  "sin_alt_pole = sin_alt_of libm_sin_pole0 libm_cos_pole0 30 0 90"

definition libm_sin_pole :: "real \<Rightarrow> real" where
  "libm_sin_pole x = (if x = arcsin sin_alt_pole then 1 / 2 else libm_sin_pole0 x)"

definition libm_cos_pole :: "real \<Rightarrow> real" where
  "libm_cos_pole x =
     (if x = arcsin sin_alt_pole then 3900231685776981 / 4503599627370496
      else libm_cos_pole0 x)"

text \<open>
  The run \<^verbatim>\<open>RA_DEC_to_ALT_AZ(0, 0, 0, 0)\<close>, an object at the zenith: all three angles
  are 0, where the library is exact; \<^verbatim>\<open>sin_alt\<close> is \<open>1.0\<close>, and for
  \<^verbatim>\<open>alt = math.asin(1.0)\<close>, \<^verbatim>\<open>math.sin(alt)\<close> is \<open>1.0\<close> and \<^verbatim>\<open>math.cos(alt)\<close> is
  \<open>6.123233995736766e-17\<close>.
\<close>

definition libm_cos_zenith :: "real \<Rightarrow> real" where
  "libm_cos_zenith x =
     (if x = arcsin 1 then 4967757600021511 / 81129638414606681695789005144064 else cos x)"

section \<open>Selection of alignment stars (\<^verbatim>\<open>Dobby_bright_stars.py\<close>)\<close>

text \<open>\<^verbatim>\<open>sorted(xs, key = f, reverse = True)\<close>: Python's sort is stable, and with
  \<^verbatim>\<open>reverse = True\<close> it still keeps elements of equal key in their original order:
  the list is reversed, sorted stably in ascending order, and reversed again.
  \<^const>\<open>sort_key\<close> is a stable (insertion) sort.\<close>

definition py_sorted_reverse :: "('a \<Rightarrow> real) \<Rightarrow> 'a list \<Rightarrow> 'a list" where
  "py_sorted_reverse f xs = rev (sort_key f (rev xs))"

text \<open>\<^verbatim>\<open>itertools.combinations(range(n), 3)\<close>: the index triples \<open>i < j < k < n\<close>, in
  lexicographic order.\<close>

type_synonym triple = "nat \<times> nat \<times> nat"

definition combinations3 :: "nat \<Rightarrow> triple list" where
  "combinations3 n = [(i, j, k). i \<leftarrow> [0..<n], j \<leftarrow> [Suc i..<n], k \<leftarrow> [Suc j..<n]]"

text \<open>A \<^verbatim>\<open>dict\<close> keeps its keys in insertion order; \<^verbatim>\<open>d[k] = v\<close> overwrites the value of
  a key that is present, in place, and appends a new key.\<close>

fun dict_set :: "('k \<times> 'v) list \<Rightarrow> 'k \<Rightarrow> 'v \<Rightarrow> ('k \<times> 'v) list" where
  "dict_set [] k v = [(k, v)]"
| "dict_set ((k', v') # d) k v =
     (if k' = k then (k, v) # d else (k', v') # dict_set d k v)"

text \<open>The loop \<^verbatim>\<open>for i,j,k in ...: triples[(i,j,k)] = area(stars[i], stars[j], stars[k])\<close>.
  The indices come from \<^verbatim>\<open>range(len(stars))\<close>, so \<^verbatim>\<open>stars[i]\<close> is in range.\<close>

fun fill_triples ::
    "Star list \<Rightarrow> triple list \<Rightarrow> (triple \<times> real) list \<Rightarrow> py_error + (triple \<times> real) list" where
  "fill_triples stars [] triples = Inr triples"
| "fill_triples stars ((i, j, k) # rest) triples =
     (case area (stars ! i) (stars ! j) (stars ! k) of
        Inl e \<Rightarrow> Inl e
      | Inr a \<Rightarrow> fill_triples stars rest (dict_set triples (i, j, k) a))"

text \<open>The combinations with the number \<^verbatim>\<open>area\<close> computes for each, in the order of
  enumeration: the content of the dictionary \<^verbatim>\<open>triples\<close> after the loop (lemma
  \<open>fill_triples_eq\<close> below).\<close>

definition score :: "Star list \<Rightarrow> triple \<Rightarrow> triple \<times> real" where
  "score stars t =
     (t, area_real (stars ! fst t) (stars ! fst (snd t)) (stars ! snd (snd t)))"

definition scored :: "Star list \<Rightarrow> (triple \<times> real) list" where
  "scored stars = map (score stars) (combinations3 (length stars))"

definition NUMBER :: nat where
  "NUMBER = 15"

text \<open>A printed line of the ranking: the running index, the three star names and the
  area (the text formatting of the numbers is not modelled).\<close>

type_synonym out_line = "nat \<times> string \<times> string \<times> string \<times> real"

definition line_of :: "Star list \<Rightarrow> nat \<Rightarrow> triple \<times> real \<Rightarrow> out_line" where
  "line_of stars index tr =
     (index, Name (stars ! fst (fst tr)), Name (stars ! fst (snd (fst tr))),
      Name (stars ! snd (snd (fst tr))), snd tr)"

text \<open>The printing loop: print the line, increment \<^verbatim>\<open>index\<close>, and leave the loop once
  \<^verbatim>\<open>index > NUMBER\<close>.\<close>

fun print_loop :: "Star list \<Rightarrow> (triple \<times> real) list \<Rightarrow> nat \<Rightarrow> out_line list" where
  "print_loop stars [] index = []"
| "print_loop stars (tr # rest) index =
     line_of stars index tr #
       (if index + 1 > NUMBER then [] else print_loop stars rest (index + 1))"

text \<open>\<^verbatim>\<open>best_stars\<close> returns \<^verbatim>\<open>None\<close>; what it produces is its printed output: the two
  numbers of the heading (\<^verbatim>\<open>NUMBER\<close> and the number of combinations) and the ranking
  lines.\<close>

definition triples_sorted :: "Star list \<Rightarrow> py_error + (triple \<times> real) list" where
  "triples_sorted stars =
     (case fill_triples stars (combinations3 (length stars)) [] of
        Inl e \<Rightarrow> Inl e
      | Inr triples \<Rightarrow> Inr (py_sorted_reverse snd triples))"

definition best_stars :: "Star list \<Rightarrow> py_error + ((nat \<times> nat) \<times> out_line list)" where
  "best_stars stars =
     (case triples_sorted stars of
        Inl e \<Rightarrow> Inl e
      | Inr ts \<Rightarrow> Inr ((NUMBER, length ts), print_loop stars ts 1))"

text \<open>\<^verbatim>\<open>get_suitable_stars\<close> takes no argument: it reads the catalogue through
  \<^verbatim>\<open>load_bright_stars\<close> (file input) and the module variable \<^verbatim>\<open>LOW_ANGLE\<close>. Both are
  passed explicitly here; \<^verbatim>\<open>LOW_ANGLE\<close> is preset to \<open>20.0\<close>.\<close>

definition LOW_ANGLE_preset :: real where
  "LOW_ANGLE_preset = 20"

definition get_suitable_stars :: "real \<Rightarrow> Star list \<Rightarrow> Star list" where
  "get_suitable_stars LOW_ANGLE all_stars =
     (let suitable = fold (\<lambda>star suitable. if Alt star \<ge> LOW_ANGLE then suitable @ [star] else suitable)
                          all_stars []
      in py_sorted_reverse Alt suitable)"

section \<open>A small sky for concrete runs\<close>

text \<open>Four named stars: on the horizon at azimuth 0, at the zenith, at the nadir, and on
  the horizon at azimuth 180; the ranking of their four triples, and the lines printed
  for it. The four areas 0, 1/2, 1/2 and 1 are the values the program computes in
  doubles as well (\<open>0.0\<close>, \<open>0.5\<close>, \<open>0.5\<close>, \<open>1.0\<close>).\<close>

definition named_star :: "string \<Rightarrow> real \<Rightarrow> real \<Rightarrow> Star" where
  "named_star n alt az = (star_at alt az)\<lparr>Name := n\<rparr>"

definition four_stars :: "Star list" where
  "four_stars =
     [named_star ''A'' 0 0, named_star ''B'' 90 0, named_star ''C'' (- 90) 0,
      named_star ''D'' 0 180]"

definition four_stars_sorted :: "(triple \<times> real) list" where
  "four_stars_sorted =
     [((1, 2, 3), 1), ((0, 1, 3), 1 / 2), ((0, 2, 3), 1 / 2), ((0, 1, 2), 0)]"

definition four_stars_lines :: "out_line list" where
  "four_stars_lines =
     [(1, ''B'', ''C'', ''D'', 1), (2, ''A'', ''B'', ''D'', 1 / 2),
      (3, ''A'', ''C'', ''D'', 1 / 2), (4, ''A'', ''B'', ''C'', 0)]"

section \<open>Geometry: basic facts\<close>

lemma radians_0: "radians 0 = 0"
  by (simp add: radians_def)

lemma radians_90: "radians 90 = pi / 2"
  by (simp add: radians_def)

lemma cartesian_0_0: "cartesian (star_at 0 0) = (1, 0, 0)"
  by (simp add: cartesian_def star_at_def radians_0)

lemma cartesian_0_90: "cartesian (star_at 0 90) = (0, 1, 0)"
  by (simp add: cartesian_def star_at_def radians_0 radians_90)

lemma cartesian_90_0: "cartesian (star_at 90 0) = (0, 0, 1)"
  by (simp add: cartesian_def star_at_def radians_0 radians_90)

lemma vector_norm_value:
  "vector_norm v = Inr (sqrt ((v0 v)\<^sup>2 + (v1 v)\<^sup>2 + (v2 v)\<^sup>2))"
proof -
  have "\<not> (v0 v)\<^sup>2 + (v1 v)\<^sup>2 + (v2 v)\<^sup>2 < 0"
    by (simp add: not_less add_nonneg_nonneg)
  then show ?thesis
    by (simp add: vector_norm_def components_def py_sqrt_def)
qed

lemma area_value: "area s1 s2 s3 = Inr (area_real s1 s2 s3)"
  by (simp add: area_def area_real_def Let_def vector_norm_value euclid_norm_def vec_sub_def)

lemma euclid_norm_nonneg: "0 \<le> euclid_norm v"
  by (simp add: euclid_norm_def)

lemma area_right_angle_corner:
  "area (star_at 0 0) (star_at 0 90) (star_at 90 0) = Inr (1 / 2)"
  by (simp add: area_value area_real_def cartesian_0_0 cartesian_0_90 cartesian_90_0 euclid_norm_def
      vector_product_def vec_sub_def v0_def v1_def v2_def)

lemma area_right_angle_corner_swapped:
  "area (star_at 0 0) (star_at 90 0) (star_at 0 90) = Inr (sqrt 2 / 2)"
  by (simp add: area_value area_real_def cartesian_0_0 cartesian_0_90 cartesian_90_0 euclid_norm_def
      vector_product_def vec_sub_def v0_def v1_def v2_def)

lemma triangleArea_spec_right_angle_corner:
  "triangleArea_spec (star_at 0 0) (star_at 0 90) (star_at 90 0) = sqrt 3 / 2"
  by (simp add: triangleArea_spec_def cartesian_0_0 cartesian_0_90 cartesian_90_0
      euclid_norm_def vector_product_def vec_sub_def v0_def v1_def v2_def)

section \<open>Claims on the triangle area and the angular separation\<close>

text \<open>
  \<^bold>\<open>C1\<close>. The claim: \<^verbatim>\<open>area\<close> returns half the norm of the cross product of the edge
  vectors \<open>p1 - p2\<close> and \<open>p1 - p3\<close> of the cartesian projections of the three stars.
  The code does not: the third component of its second edge is \<open>z1 - z2\<close>, not
  \<open>z1 - z3\<close>. For the stars at (Alt, Az) = (0, 0), (0, 90), (90, 0), whose projections are
  the three unit vectors, the code returns \<open>1/2\<close>, while the triangle they span has area
  \<open>\<surd>3/2\<close>.
\<close>

theorem area_is_not_triangleArea_spec:
  "area (star_at 0 0) (star_at 0 90) (star_at 90 0) = Inr (1 / 2)
   \<and> triangleArea_spec (star_at 0 0) (star_at 0 90) (star_at 90 0) = sqrt 3 / 2
   \<and> area (star_at 0 0) (star_at 0 90) (star_at 90 0)
        \<noteq> Inr (triangleArea_spec (star_at 0 0) (star_at 0 90) (star_at 90 0))"
  by (simp add: area_right_angle_corner triangleArea_spec_right_angle_corner)

text \<open>
  \<^bold>\<open>C2\<close>. The claim: \<^verbatim>\<open>area\<close> returns the same value for every order of its three
  arguments. The code does not, for the same third component of \<^verbatim>\<open>edge2\<close>: exchanging the
  second and the third star of the triple above changes the result from \<open>1/2\<close> to
  \<open>\<surd>2/2\<close>.
\<close>

theorem area_depends_on_argument_order:
  "area (star_at 0 0) (star_at 0 90) (star_at 90 0) = Inr (1 / 2)
   \<and> area (star_at 0 0) (star_at 90 0) (star_at 0 90) = Inr (sqrt 2 / 2)
   \<and> area (star_at 0 0) (star_at 0 90) (star_at 90 0)
        \<noteq> area (star_at 0 0) (star_at 90 0) (star_at 0 90)"
  by (simp add: area_right_angle_corner area_right_angle_corner_swapped)

text \<open>
  \<^bold>\<open>C10\<close>. \<^verbatim>\<open>angle\<close> is symmetric: for every two stars, \<^verbatim>\<open>angle(s1, s2)\<close> and
  \<^verbatim>\<open>angle(s2, s1)\<close> are the same result (the same value, or the same exception).
\<close>

theorem angle_symmetric: "angle s1 s2 = angle s2 s1"
proof -
  have "cos (radians (Az s1) - radians (Az s2)) = cos (radians (Az s2) - radians (Az s1))"
    by (metis cos_minus minus_diff_eq)
  then show ?thesis
    by (simp add: angle_def Let_def mult.commute)
qed

section \<open>Claims on the time calculations\<close>

text \<open>
  \<^bold>\<open>C8\<close>. At the J2000.0 epoch itself, 2000-01-01 12:00:00, \<^verbatim>\<open>days_from_J2000\<close> returns
  exactly 0: \<open>-1.5\<close> days to the beginning of the year 2000, plus day 1 of January, plus half
  a day.
\<close>

theorem days_from_J2000_at_epoch: "days_from_J2000 2000 1 1 12 0 0 = Inr 0"
  by (simp add: days_from_J2000_def days_from_J2000_until_year_def days_until_month_begins_def
      dict_get_def DAYS_TIL_MONTH_def HMS_to_decimal_time_def)

section \<open>Angular separation and coordinate transform: facts\<close>

lemma angle_fp_exact: "angle_fp sin cos = angle"
  by (intro ext) (simp add: angle_fp_def angle_def)

lemma angle_fp_cases: "angle_fp msin mcos s1 s2 = py_acos (cos_angle_of msin mcos s1 s2)"
  by (simp add: angle_fp_def cos_angle_of_def Let_def)

lemma radians_minus_82_nonzero: "radians (- 82) \<noteq> 0"
  by (simp add: radians_def)

lemma cos_angle_of_82:
  "cos_angle_of libm_sin_82 libm_cos_82 (star_at (- 82) 0) (star_at (- 82) 0)
     = (2507119702494989 / 18014398509481984)\<^sup>2 + (4459770905381437 / 4503599627370496)\<^sup>2"
  using radians_minus_82_nonzero
  by (simp add: cos_angle_of_def libm_sin_82_def libm_cos_82_def star_at_def radians_0
      power2_eq_square)

lemma RA_DEC_to_ALT_AZ_cases:
  "RA_DEC_to_ALT_AZ msin mcos raD decD haD latD =
     (if sin_alt_of msin mcos decD haD latD < - 1 \<or> 1 < sin_alt_of msin mcos decD haD latD
        then Inl ValueError
      else if azimuth_divisor msin mcos decD haD latD = 0 then Inl ZeroDivisionError
      else if cos_a_of msin mcos decD haD latD < - 1 \<or> 1 < cos_a_of msin mcos decD haD latD
        then Inl ValueError
      else Inr (rad2deg (arcsin (sin_alt_of msin mcos decD haD latD)),
                if msin (deg2rad haD) < 0 then rad2deg (arccos (cos_a_of msin mcos decD haD latD))
                else 360 - rad2deg (arccos (cos_a_of msin mcos decD haD latD))))"
  unfolding RA_DEC_to_ALT_AZ_def Let_def sin_alt_of_def [symmetric]
  by (simp add: py_asin_def py_div_def py_acos_def cos_a_of_def azimuth_divisor_def Let_def)

lemma angle_same_star_exact: "angle s s = Inr 0"
proof -
  have "cos (radians (Alt s)) * cos (radians (Alt s)) + sin (radians (Alt s)) * sin (radians (Alt s)) = 1"
    using sin_cos_squared_add2 [of "radians (Alt s)"] by (simp add: power2_eq_square)
  then show ?thesis
    by (simp add: angle_def Let_def py_acos_def)
qed

lemma deg2rad_0: "deg2rad 0 = 0"
  by (simp add: deg2rad_def)

lemma deg2rad_30: "deg2rad 30 = pi / 6"
  by (simp add: deg2rad_def)

lemma deg2rad_90: "deg2rad 90 = pi / 2"
  by (simp add: deg2rad_def)

lemma sin_alt_pole_value:
  "sin_alt_pole = 9007199254740991 / 18014398509481984
      + 7800463371553963 / 9007199254740992
        * (4967757600021511 / 81129638414606681695789005144064)"
  by (simp add: sin_alt_pole_def sin_alt_of_def libm_sin_pole0_def libm_cos_pole0_def
      deg2rad_0 deg2rad_30 deg2rad_90)

lemma sin_alt_pole_bounds: "0 < sin_alt_pole" "sin_alt_pole < 1 / 2"
  by (simp_all add: sin_alt_pole_value)

lemma sin_arcsin_pole: "sin (arcsin sin_alt_pole) = sin_alt_pole"
  using sin_alt_pole_bounds by simp

lemma alt_pole_distinct:
  "arcsin sin_alt_pole \<noteq> deg2rad 30"
  "arcsin sin_alt_pole \<noteq> deg2rad 90"
  "arcsin sin_alt_pole \<noteq> 0"
proof -
  show "arcsin sin_alt_pole \<noteq> deg2rad 30"
  proof
    assume "arcsin sin_alt_pole = deg2rad 30"
    then have "arcsin sin_alt_pole = pi / 6" by (simp only: deg2rad_30)
    then have "sin (arcsin sin_alt_pole) = sin (pi / 6)" by (simp only:)
    then show False using sin_alt_pole_bounds by (simp add: sin_arcsin_pole sin_30)
  qed
  show "arcsin sin_alt_pole \<noteq> deg2rad 90"
  proof
    assume "arcsin sin_alt_pole = deg2rad 90"
    then have "arcsin sin_alt_pole = pi / 2" by (simp only: deg2rad_90)
    then have "sin (arcsin sin_alt_pole) = sin (pi / 2)" by (simp only:)
    then show False using sin_alt_pole_bounds by (simp add: sin_arcsin_pole)
  qed
  show "arcsin sin_alt_pole \<noteq> 0"
  proof
    assume "arcsin sin_alt_pole = 0"
    then have "sin (arcsin sin_alt_pole) = sin 0" by simp
    then show False using sin_alt_pole_bounds by (simp add: sin_arcsin_pole)
  qed
qed

lemma libm_pole_values:
  "libm_sin_pole (deg2rad 30) = 9007199254740991 / 18014398509481984"
  "libm_cos_pole (deg2rad 30) = 7800463371553963 / 9007199254740992"
  "libm_sin_pole (deg2rad 90) = 1"
  "libm_cos_pole (deg2rad 90) = 4967757600021511 / 81129638414606681695789005144064"
  "libm_cos_pole (deg2rad 0) = 1"
  "libm_sin_pole (arcsin sin_alt_pole) = 1 / 2"
  "libm_cos_pole (arcsin sin_alt_pole) = 3900231685776981 / 4503599627370496"
  using alt_pole_distinct [symmetric]
  by (simp_all add: libm_sin_pole_def libm_cos_pole_def libm_sin_pole0_def libm_cos_pole0_def
      deg2rad_0 deg2rad_30 deg2rad_90)

lemma sin_alt_of_pole: "sin_alt_of libm_sin_pole libm_cos_pole 30 0 90 = sin_alt_pole"
  by (simp add: sin_alt_of_def libm_pole_values sin_alt_pole_value)

lemma azimuth_divisor_pole:
  "azimuth_divisor libm_sin_pole libm_cos_pole 30 0 90
     = 3900231685776981 / 4503599627370496
       * (4967757600021511 / 81129638414606681695789005144064)"
  by (simp add: azimuth_divisor_def sin_alt_of_pole libm_pole_values)

lemma cos_a_of_pole:
  "cos_a_of libm_sin_pole libm_cos_pole 30 0 90
     = (9007199254740991 / 18014398509481984 - 1 / 2)
       / (3900231685776981 / 4503599627370496
          * (4967757600021511 / 81129638414606681695789005144064))"
  by (simp add: cos_a_of_def azimuth_divisor_pole sin_alt_of_pole libm_pole_values)


lemma rad2deg_arcsin_bounds:
  assumes "- 1 \<le> y" "y \<le> 1"
  shows "- 90 \<le> rad2deg (arcsin y) \<and> rad2deg (arcsin y) \<le> 90"
proof -
  have "- (pi / 2) \<le> arcsin y" "arcsin y \<le> pi / 2"
    using arcsin_lbound [OF assms] arcsin_ubound [OF assms] by blast+
  then have "- 90 * pi \<le> 180 * arcsin y" "180 * arcsin y \<le> 90 * pi"
    by linarith+
  then show ?thesis
    unfolding rad2deg_def by (simp_all add: pos_le_divide_eq pos_divide_le_eq)
qed

lemma rad2deg_arccos_bounds:
  assumes "- 1 \<le> y" "y \<le> 1"
  shows "0 \<le> rad2deg (arccos y) \<and> rad2deg (arccos y) \<le> 180"
proof -
  have "0 \<le> arccos y" "arccos y \<le> pi"
    using assms by (simp_all add: arccos_lbound arccos_ubound)
  then show ?thesis
    by (simp add: rad2deg_def pos_le_divide_eq pos_divide_le_eq)
qed

lemma exact_90_0_0:
  "sin_alt_of sin cos 90 0 0 = 0"
  "azimuth_divisor sin cos 90 0 0 = 1"
  "cos_a_of sin cos 90 0 0 = 1"
proof -
  show s: "sin_alt_of sin cos 90 0 0 = 0"
    by (simp add: sin_alt_of_def deg2rad_0 deg2rad_90)
  show d: "azimuth_divisor sin cos 90 0 0 = 1"
    by (simp add: azimuth_divisor_def s deg2rad_0)
  show "cos_a_of sin cos 90 0 0 = 1"
    by (simp add: cos_a_of_def d s deg2rad_0 deg2rad_90)
qed

lemma exact_0_90_0:
  "sin_alt_of sin cos 0 90 0 = 0"
  "azimuth_divisor sin cos 0 90 0 = 1"
  "cos_a_of sin cos 0 90 0 = 0"
proof -
  show s: "sin_alt_of sin cos 0 90 0 = 0"
    by (simp add: sin_alt_of_def deg2rad_0 deg2rad_90)
  show d: "azimuth_divisor sin cos 0 90 0 = 1"
    by (simp add: azimuth_divisor_def s deg2rad_0)
  show "cos_a_of sin cos 0 90 0 = 0"
    by (simp add: cos_a_of_def d s deg2rad_0)
qed


lemma libm_cos_zenith_values:
  "libm_cos_zenith 0 = 1"
  "libm_cos_zenith (pi / 2) = 4967757600021511 / 81129638414606681695789005144064"
  by (simp_all add: libm_cos_zenith_def)

lemma zenith_run:
  "sin_alt_of sin libm_cos_zenith 0 0 0 = 1"
  "azimuth_divisor sin libm_cos_zenith 0 0 0
     = 4967757600021511 / 81129638414606681695789005144064"
  "cos_a_of sin libm_cos_zenith 0 0 0 = 0"
proof -
  show s: "sin_alt_of sin libm_cos_zenith 0 0 0 = 1"
    by (simp add: sin_alt_of_def deg2rad_0 libm_cos_zenith_values)
  show d: "azimuth_divisor sin libm_cos_zenith 0 0 0
     = 4967757600021511 / 81129638414606681695789005144064"
    by (simp add: azimuth_divisor_def s deg2rad_0 libm_cos_zenith_values)
  show "cos_a_of sin libm_cos_zenith 0 0 0 = 0"
    by (simp add: cos_a_of_def d s deg2rad_0)
qed

section \<open>Claims on the coordinate transform and the inverse trigonometric calls\<close>

text \<open>
  \<^bold>\<open>C3\<close>. The claim: when \<open>cos(alt)\<close> or \<open>cos(lat)\<close> is approximately zero,
  \<^verbatim>\<open>RA_DEC_to_ALT_AZ\<close> guards the division of the azimuth step and returns a sentinel
  instead of raising. The code has no guard. For an observer at the pole (latitude 90),
  declination 30 and hour angle 0, \<^verbatim>\<open>math.cos(lat)\<close> is \<open>6.1e-17\<close>, the divisor
  \<^verbatim>\<open>math.cos(alt) * math.cos(lat)\<close> is not zero, the quotient \<^verbatim>\<open>cos_a\<close> is below
  \<open>-1\<close> (about \<open>-1.0468\<close>), and \<^verbatim>\<open>math.acos\<close> raises \<^verbatim>\<open>ValueError\<close>.
\<close>

theorem RA_DEC_to_ALT_AZ_raises_at_pole:
  "libm_cos_pole (deg2rad 90) = 4967757600021511 / 81129638414606681695789005144064
   \<and> azimuth_divisor libm_sin_pole libm_cos_pole 30 0 90 \<noteq> 0
   \<and> cos_a_of libm_sin_pole libm_cos_pole 30 0 90 < - 1
   \<and> RA_DEC_to_ALT_AZ libm_sin_pole libm_cos_pole 0 30 0 90 = Inl ValueError"
proof -
  have d: "azimuth_divisor libm_sin_pole libm_cos_pole 30 0 90 \<noteq> 0"
    by (simp add: azimuth_divisor_pole)
  have c: "cos_a_of libm_sin_pole libm_cos_pole 30 0 90 < - 1"
    by (simp add: cos_a_of_pole)
  have s: "\<not> (sin_alt_of libm_sin_pole libm_cos_pole 30 0 90 < - 1
             \<or> 1 < sin_alt_of libm_sin_pole libm_cos_pole 30 0 90)"
    using sin_alt_pole_bounds by (simp add: sin_alt_of_pole)
  have "RA_DEC_to_ALT_AZ libm_sin_pole libm_cos_pole 0 30 0 90 = Inl ValueError"
    using d c s by (simp add: RA_DEC_to_ALT_AZ_cases)
  then show ?thesis
    using d c by (simp add: libm_pole_values)
qed

text \<open>
  \<^bold>\<open>C3\<close>, as the code has it by design: \<^verbatim>\<open>RA_DEC_to_ALT_AZ\<close> has no guard and no
  sentinel. Whenever the divisor \<^verbatim>\<open>math.cos(alt) * math.cos(lat)\<close> is not zero, however
  small, and the computed arguments of \<^verbatim>\<open>math.asin\<close> and \<^verbatim>\<open>math.acos\<close> lie in
  \<open>[-1, 1]\<close>, it returns the pair of the formula: the altitude from \<^verbatim>\<open>math.asin\<close>, the
  azimuth from \<^verbatim>\<open>math.acos\<close> of the quotient. This holds for every \<open>msin\<close> and
  \<open>mcos\<close>; at the zenith (all angles 0, divisor \<open>6.1e-17\<close>) the pair is \<open>(90, 270)\<close>.
  What the function does when a computed argument falls outside \<open>[-1, 1]\<close> is left out
  here.
\<close>

theorem RA_DEC_to_ALT_AZ_no_sentinel:
  assumes "- 1 \<le> sin_alt_of msin mcos decD haD latD" "sin_alt_of msin mcos decD haD latD \<le> 1"
    and "azimuth_divisor msin mcos decD haD latD \<noteq> 0"
    and "- 1 \<le> cos_a_of msin mcos decD haD latD" "cos_a_of msin mcos decD haD latD \<le> 1"
  shows "RA_DEC_to_ALT_AZ msin mcos raD decD haD latD =
           Inr (rad2deg (arcsin (sin_alt_of msin mcos decD haD latD)),
                if msin (deg2rad haD) < 0
                then rad2deg (arccos (cos_a_of msin mcos decD haD latD))
                else 360 - rad2deg (arccos (cos_a_of msin mcos decD haD latD)))"
  using assms by (simp add: RA_DEC_to_ALT_AZ_cases)

theorem RA_DEC_to_ALT_AZ_no_sentinel_witness:
  "sin_alt_of sin libm_cos_zenith 0 0 0 = 1
   \<and> azimuth_divisor sin libm_cos_zenith 0 0 0
        = 4967757600021511 / 81129638414606681695789005144064
   \<and> cos_a_of sin libm_cos_zenith 0 0 0 = 0
   \<and> RA_DEC_to_ALT_AZ sin libm_cos_zenith 0 0 0 0 = Inr (90, 270)"
proof -
  have "RA_DEC_to_ALT_AZ sin libm_cos_zenith 0 0 0 0 =
           Inr (rad2deg (arcsin (sin_alt_of sin libm_cos_zenith 0 0 0)),
                if sin (deg2rad 0) < 0
                then rad2deg (arccos (cos_a_of sin libm_cos_zenith 0 0 0))
                else 360 - rad2deg (arccos (cos_a_of sin libm_cos_zenith 0 0 0)))"
    by (rule RA_DEC_to_ALT_AZ_no_sentinel) (simp_all add: zenith_run)
  then have "RA_DEC_to_ALT_AZ sin libm_cos_zenith 0 0 0 0 = Inr (90, 270)"
    by (simp add: zenith_run deg2rad_0 rad2deg_def)
  then show ?thesis
    by (simp add: zenith_run)
qed

text \<open>
  \<^bold>\<open>C4\<close>. The claim: every argument of \<^verbatim>\<open>math.asin\<close> and \<^verbatim>\<open>math.acos\<close> is clamped to
  \<open>[-1, 1]\<close>, so that a computed argument slightly outside does not raise. The code has
  no clamp. For \<^verbatim>\<open>angle(s, s)\<close> with \<open>s\<close> at altitude -82 and azimuth 0, the sum of
  the squares of the library's cosine and sine exceeds 1, by less than \<open>1e-15\<close>, and
  \<^verbatim>\<open>math.acos\<close> raises \<^verbatim>\<open>ValueError\<close> (with the exact functions the sum is 1 and the
  angle is 0: \<open>angle_same_star_exact\<close>).
\<close>

theorem angle_raises_for_a_star_and_itself:
  "1 < cos_angle_of libm_sin_82 libm_cos_82 (star_at (- 82) 0) (star_at (- 82) 0)
   \<and> cos_angle_of libm_sin_82 libm_cos_82 (star_at (- 82) 0) (star_at (- 82) 0) < 1 + 1 / 10 ^ 15
   \<and> angle_fp libm_sin_82 libm_cos_82 (star_at (- 82) 0) (star_at (- 82) 0) = Inl ValueError"
  by (simp add: angle_fp_cases cos_angle_of_82 py_acos_def power2_eq_square)


text \<open>
  \<^bold>\<open>C5\<close>. The claim: for valid inputs away from the singularity the azimuth lies in
  \<open>[0, 360)\<close>. The code returns the azimuth 360 for an object on the meridian north of
  the zenith: with declination 90, hour angle 0 and latitude 0 the divisor is 1,
  \<^verbatim>\<open>cos_a\<close> is 1, \<^verbatim>\<open>a\<close> is 0, \<^verbatim>\<open>math.sin(ha) < 0\<close> is false, and the azimuth is
  \<open>360 - 0\<close>.
\<close>

theorem RA_DEC_to_ALT_AZ_azimuth_360:
  "sin_alt_of sin cos 90 0 0 = 0 \<and> azimuth_divisor sin cos 90 0 0 = 1
   \<and> cos_a_of sin cos 90 0 0 = 1
   \<and> RA_DEC_to_ALT_AZ sin cos 0 90 0 0 = Inr (0, 360)"
  by (simp add: RA_DEC_to_ALT_AZ_cases exact_90_0_0 deg2rad_0 rad2deg_def)


text \<open>
  \<^bold>\<open>C5\<close>, as the code has it by design: for right ascension and hour angle in
  \<open>[0, 360)\<close>, declination and latitude in \<open>[-90, 90]\<close>, a non-zero divisor
  \<^verbatim>\<open>math.cos(alt) * math.cos(lat)\<close>, and computed arguments of \<^verbatim>\<open>math.asin\<close> and
  \<^verbatim>\<open>math.acos\<close> inside \<open>[-1, 1]\<close>, \<^verbatim>\<open>RA_DEC_to_ALT_AZ\<close> returns an altitude in
  \<open>[-90, 90]\<close> and an azimuth in the closed interval \<open>[0, 360]\<close>; the azimuth is 360 only
  when \<^verbatim>\<open>math.sin(ha) < 0\<close> is false and \<^verbatim>\<open>cos_a\<close> is 1. This holds for every
  \<open>msin\<close> and \<open>mcos\<close>. What the function does when a computed argument falls outside
  \<open>[-1, 1]\<close> is left out here.
\<close>

theorem RA_DEC_to_ALT_AZ_ranges:
  assumes "0 \<le> raD" "raD < 360" "- 90 \<le> decD" "decD \<le> 90"
    and "- 90 \<le> latD" "latD \<le> 90" "0 \<le> haD" "haD < 360"
    and sa: "- 1 \<le> sin_alt_of msin mcos decD haD latD" "sin_alt_of msin mcos decD haD latD \<le> 1"
    and away: "azimuth_divisor msin mcos decD haD latD \<noteq> 0"
    and cb: "- 1 \<le> cos_a_of msin mcos decD haD latD" "cos_a_of msin mcos decD haD latD \<le> 1"
  shows "\<exists>alt az. RA_DEC_to_ALT_AZ msin mcos raD decD haD latD = Inr (alt, az)
           \<and> - 90 \<le> alt \<and> alt \<le> 90 \<and> 0 \<le> az \<and> az \<le> 360
           \<and> (az = 360 \<longrightarrow> \<not> msin (deg2rad haD) < 0 \<and> cos_a_of msin mcos decD haD latD = 1)"
proof -
  let ?alt = "rad2deg (arcsin (sin_alt_of msin mcos decD haD latD))"
  let ?a = "rad2deg (arccos (cos_a_of msin mcos decD haD latD))"
  let ?az = "if msin (deg2rad haD) < 0 then ?a else 360 - ?a"
  have r: "RA_DEC_to_ALT_AZ msin mcos raD decD haD latD = Inr (?alt, ?az)"
    using sa away cb by (simp add: RA_DEC_to_ALT_AZ_cases)
  have alt: "- 90 \<le> ?alt \<and> ?alt \<le> 90"
    using sa by (rule rad2deg_arcsin_bounds)
  have a: "0 \<le> ?a \<and> ?a \<le> 180"
    using cb by (rule rad2deg_arccos_bounds)
  have az: "0 \<le> ?az \<and> ?az \<le> 360"
    using a by auto
  have top: "?az = 360 \<longrightarrow> \<not> msin (deg2rad haD) < 0 \<and> cos_a_of msin mcos decD haD latD = 1"
  proof
    assume e: "?az = 360"
    have ns: "\<not> msin (deg2rad haD) < 0"
      using e a by (auto split: if_splits)
    then have "?a = 0" using e by simp
    then have "arccos (cos_a_of msin mcos decD haD latD) = 0"
      by (simp add: rad2deg_def)
    then have "cos (arccos (cos_a_of msin mcos decD haD latD)) = 1" by simp
    then have "cos_a_of msin mcos decD haD latD = 1"
      using cb by simp
    with ns show "\<not> msin (deg2rad haD) < 0 \<and> cos_a_of msin mcos decD haD latD = 1" by simp
  qed
  show ?thesis
    using r alt az top by blast
qed


theorem RA_DEC_to_ALT_AZ_ranges_witness:
  "sin_alt_of sin cos 0 90 0 = 0 \<and> azimuth_divisor sin cos 0 90 0 = 1
   \<and> cos_a_of sin cos 0 90 0 = 0
   \<and> (\<exists>alt az. RA_DEC_to_ALT_AZ sin cos 0 0 90 0 = Inr (alt, az)
           \<and> - 90 \<le> alt \<and> alt \<le> 90 \<and> 0 \<le> az \<and> az \<le> 360
           \<and> (az = 360 \<longrightarrow> \<not> sin (deg2rad 90) < 0 \<and> cos_a_of sin cos 0 90 0 = 1))"
proof -
  have "\<exists>alt az. RA_DEC_to_ALT_AZ sin cos 0 0 90 0 = Inr (alt, az)
           \<and> - 90 \<le> alt \<and> alt \<le> 90 \<and> 0 \<le> az \<and> az \<le> 360
           \<and> (az = 360 \<longrightarrow> \<not> sin (deg2rad 90) < 0 \<and> cos_a_of sin cos 0 90 0 = 1)"
    by (rule RA_DEC_to_ALT_AZ_ranges [of 0 0 0 90 sin cos]) (simp_all add: exact_0_90_0)
  then show ?thesis
    by (simp only: exact_0_90_0 simp_thms)
qed

section \<open>Sorting and the visibility filter\<close>

lemma py_sorted_reverse_descending:
  "sorted_wrt (\<lambda>x y. f y \<le> f x) (py_sorted_reverse f xs)"
proof -
  have "sorted (map f (sort_key f (rev xs)))"
    by (rule sorted_sort_key)
  then have "sorted_wrt (\<lambda>x y. f x \<le> f y) (sort_key f (rev xs))"
    by (simp add: sorted_wrt_map)
  then show ?thesis
    by (simp add: py_sorted_reverse_def sorted_wrt_rev)
qed

lemma py_sorted_reverse_stable:
  "filter (\<lambda>y. f y = k) (py_sorted_reverse f xs) = filter (\<lambda>y. f y = k) xs"
proof -
  have "filter (\<lambda>y. f y = k) (py_sorted_reverse f xs)
        = rev (filter (\<lambda>y. f y = k) (sort_key f (rev xs)))"
    by (simp add: py_sorted_reverse_def rev_filter)
  also have "\<dots> = rev (filter (\<lambda>y. f y = k) (rev xs))"
    by (simp only: sort_key_stable)
  also have "\<dots> = filter (\<lambda>y. f y = k) xs"
    by (simp add: rev_filter)
  finally show ?thesis .
qed

lemma mset_py_sorted_reverse: "mset (py_sorted_reverse f xs) = mset xs"
  by (simp add: py_sorted_reverse_def)

lemma set_py_sorted_reverse: "set (py_sorted_reverse f xs) = set xs"
  by (simp add: py_sorted_reverse_def)

lemma length_py_sorted_reverse: "length (py_sorted_reverse f xs) = length xs"
  by (simp add: py_sorted_reverse_def)

lemma py_sorted_reverse_Nil: "py_sorted_reverse f [] = []"
  by (simp add: py_sorted_reverse_def)

lemma suitable_loop:
  "fold (\<lambda>star suitable. if P star then suitable @ [star] else suitable) xs acc
     = acc @ filter P xs"
  by (induction xs arbitrary: acc) simp_all

lemma get_suitable_stars_eq:
  "get_suitable_stars LOW_ANGLE all_stars
     = py_sorted_reverse Alt (filter (\<lambda>star. LOW_ANGLE \<le> Alt star) all_stars)"
  by (simp add: get_suitable_stars_def Let_def suitable_loop)


text \<open>
  \<^bold>\<open>C7\<close>. For every catalogue \<open>all_stars\<close>, in any order, and every value of the threshold
  \<^verbatim>\<open>LOW_ANGLE\<close>, \<^verbatim>\<open>get_suitable_stars\<close> returns exactly the entries whose altitude is
  greater than or equal to the threshold (as a multiset: each as often as it occurs), in
  descending order of altitude, the entries of each altitude in the order the catalogue
  has them; an empty catalogue gives the empty list.
\<close>

theorem get_suitable_stars_filters_and_sorts:
  "mset (get_suitable_stars LOW_ANGLE all_stars)
      = mset (filter (\<lambda>star. LOW_ANGLE \<le> Alt star) all_stars)
   \<and> sorted_wrt (\<lambda>x y. Alt y \<le> Alt x) (get_suitable_stars LOW_ANGLE all_stars)
   \<and> (\<forall>h. filter (\<lambda>star. Alt star = h) (get_suitable_stars LOW_ANGLE all_stars)
          = (if LOW_ANGLE \<le> h then filter (\<lambda>star. Alt star = h) all_stars else []))
   \<and> get_suitable_stars LOW_ANGLE [] = []"
proof -
  have ties: "filter (\<lambda>star. Alt star = h) (get_suitable_stars LOW_ANGLE all_stars)
          = (if LOW_ANGLE \<le> h then filter (\<lambda>star. Alt star = h) all_stars else [])" for h
  proof -
    have "filter (\<lambda>star. Alt star = h) (get_suitable_stars LOW_ANGLE all_stars)
          = filter (\<lambda>star. Alt star = h) (filter (\<lambda>star. LOW_ANGLE \<le> Alt star) all_stars)"
      unfolding get_suitable_stars_eq by (rule py_sorted_reverse_stable)
    also have "\<dots> = filter (\<lambda>star. Alt star = h \<and> LOW_ANGLE \<le> h) all_stars"
      by (simp add: conj_commute cong: conj_cong)
    also have "\<dots> = (if LOW_ANGLE \<le> h then filter (\<lambda>star. Alt star = h) all_stars else [])"
      by simp
    finally show ?thesis .
  qed
  show ?thesis
    using ties
    by (simp add: get_suitable_stars_eq mset_py_sorted_reverse py_sorted_reverse_descending
        py_sorted_reverse_Nil del: mset_filter)
qed


text \<open>A run on five stars, two of them at the same altitude.\<close>

lemma get_suitable_stars_example: "map Name (get_suitable_stars 20
    [named_star ''a'' 30 0, named_star ''b'' 10 0, named_star ''c'' 50 0,
     named_star ''d'' 30 90, named_star ''e'' 20 5]) = [''c'', ''a'', ''d'', ''e'']"
  by (simp add: get_suitable_stars_def py_sorted_reverse_def named_star_def star_at_def)

section \<open>Combinations and the ranking of triples\<close>

lemma mem_combinations3:
  "(i, j, k) \<in> set (combinations3 n) \<longleftrightarrow> i < j \<and> j < k \<and> k < n"
proof
  assume "(i, j, k) \<in> set (combinations3 n)"
  then show "i < j \<and> j < k \<and> k < n"
    by (auto simp: combinations3_def)
next
  assume a: "i < j \<and> j < k \<and> k < n"
  have "\<exists>x\<in>{0..<n}. \<exists>y\<in>{Suc x..<n}. (i, j, k) \<in> (\<lambda>z. (x, y, z)) ` {Suc y..<n}"
    by (intro bexI [of _ i] bexI [of _ j] image_eqI [of _ _ k]) (use a in simp_all)
  then show "(i, j, k) \<in> set (combinations3 n)"
    by (simp add: combinations3_def)
qed

lemma set_combinations3:
  "set (combinations3 n) = {(i, j, k). i < j \<and> j < k \<and> k < n}"
proof (rule set_eqI)
  fix t :: triple
  obtain i j k where t: "t = (i, j, k)" by (cases t) 
  show "t \<in> set (combinations3 n) \<longleftrightarrow> t \<in> {(i, j, k). i < j \<and> j < k \<and> k < n}"
    unfolding t by (simp only: mem_combinations3 mem_Collect_eq prod.case)
qed


lemma sorted_wrt_concat_map:
  "sorted_wrt R (concat (map f xs)) =
     ((\<forall>x\<in>set xs. sorted_wrt R (f x))
      \<and> sorted_wrt (\<lambda>x y. \<forall>a\<in>set (f x). \<forall>b\<in>set (f y). R a b) xs)"
  by (induction xs) (auto simp: sorted_wrt_append)

lemma sorted_wrt_upt_less: "sorted_wrt (<) [m..<n]"
  by (simp add: sorted_wrt_iff_nth_less)

lemma triple_less_iff:
  "((i, j, k) < (i', j', k')) =
     (i < i' \<or> i = i' \<and> (j < j' \<or> j = j' \<and> k < (k' :: nat)))"
  for i j i' j' :: nat
  by (auto simp: less_prod_def)

lemma combinations3_inner_sorted:
  "sorted_wrt (<) (map (\<lambda>k. (i :: nat, j, k)) [Suc j..<n])"
proof -
  have "sorted_wrt (\<lambda>k k'. (i, j, k) < (i, j, k')) [Suc j..<n]"
    by (rule sorted_wrt_mono_rel [OF _ sorted_wrt_upt_less]) (simp add: triple_less_iff)
  then show ?thesis by (simp add: sorted_wrt_map)
qed

lemma combinations3_middle_sorted:
  "sorted_wrt (<) (concat (map (\<lambda>j. map (\<lambda>k. (i, j, k)) [Suc j..<n]) [Suc i..<n]))"
proof -
  have "sorted_wrt (\<lambda>j j'. \<forall>a\<in>set (map (\<lambda>k. (i, j, k)) [Suc j..<n]).
                             \<forall>b\<in>set (map (\<lambda>k. (i, j', k)) [Suc j'..<n]). a < b) [Suc i..<n]"
    by (rule sorted_wrt_mono_rel [OF _ sorted_wrt_upt_less]) (auto simp: triple_less_iff)
  moreover have "\<forall>j\<in>set [Suc i..<n]. sorted_wrt (<) (map (\<lambda>k. (i, j, k)) [Suc j..<n])"
    using combinations3_inner_sorted by blast
  ultimately show ?thesis
    by (subst sorted_wrt_concat_map) (rule conjI)
qed


lemma sorted_combinations3: "sorted_wrt (<) (combinations3 n)"
proof -
  let ?f = "\<lambda>i. concat (map (\<lambda>j. map (\<lambda>k. (i, j, k)) [Suc j..<n]) [Suc i..<n])"
  have "sorted_wrt (\<lambda>i i'. \<forall>a\<in>set (?f i). \<forall>b\<in>set (?f i'). a < b) [0..<n]"
    by (rule sorted_wrt_mono_rel [OF _ sorted_wrt_upt_less]) (auto simp: triple_less_iff)
  moreover have "\<forall>i\<in>set [0..<n]. sorted_wrt (<) (?f i)"
    using combinations3_middle_sorted by blast
  ultimately have "sorted_wrt (<) (concat (map ?f [0..<n]))"
    by (subst sorted_wrt_concat_map) (rule conjI)
  then show ?thesis
    by (simp add: combinations3_def)
qed

lemma distinct_combinations3: "distinct (combinations3 n)"
  using sorted_combinations3 [of n] by (simp add: strict_sorted_iff)

lemma dict_set_fresh: "k \<notin> fst ` set d \<Longrightarrow> dict_set d k v = d @ [(k, v)]"
  by (induction d) auto

lemma fill_triples_eq:
  "distinct cs \<Longrightarrow> set cs \<inter> fst ` set acc = {} \<Longrightarrow>
     fill_triples stars cs acc = Inr (acc @ map (score stars) cs)"
proof (induction cs arbitrary: acc)
  case Nil
  then show ?case by simp
next
  case (Cons c cs)
  obtain i j k where c: "c = (i, j, k)" by (cases c)
  let ?a = "area_real (stars ! i) (stars ! j) (stars ! k)"
  have fresh: "c \<notin> fst ` set acc"
    using Cons.prems(2) by auto
  have step: "fill_triples stars (c # cs) acc = fill_triples stars cs (acc @ [(c, ?a)])"
    using fresh by (simp add: c area_value dict_set_fresh)
  have "set cs \<inter> fst ` set (acc @ [(c, ?a)]) = {}"
    using Cons.prems by auto
  then have "fill_triples stars cs (acc @ [(c, ?a)]) = Inr ((acc @ [(c, ?a)]) @ map (score stars) cs)"
    using Cons.prems(1) by (intro Cons.IH) simp_all
  then show ?case
    using fresh by (simp add: score_def c area_value dict_set_fresh)
qed

lemma triples_sorted_eq:
  "triples_sorted stars = Inr (py_sorted_reverse snd (scored stars))"
  by (simp add: triples_sorted_def scored_def fill_triples_eq distinct_combinations3)

lemma print_loop_eq:
  "idx \<le> NUMBER \<Longrightarrow>
     print_loop stars ts idx =
       map (\<lambda>(n, tr). line_of stars n tr) (zip [idx..<Suc NUMBER] (take (Suc NUMBER - idx) ts))"
proof (induction ts arbitrary: idx)
  case Nil
  then show ?case by simp
next
  case (Cons t ts)
  have upt: "[idx..<Suc NUMBER] = idx # [Suc idx..<Suc NUMBER]"
    using Cons.prems by (simp add: upt_conv_Cons)
  have tk: "take (Suc NUMBER - idx) (t # ts) = t # take (Suc NUMBER - Suc idx) ts"
    using Cons.prems by (simp add: take_Cons' Suc_diff_le)
  show ?case
  proof (cases "idx + 1 > NUMBER")
    case True
    then have e: "idx = NUMBER" using Cons.prems by simp
    have "[NUMBER..<Suc NUMBER] = [NUMBER]" by simp
    moreover have "take (Suc NUMBER - NUMBER) (t # ts) = [t]" by simp
    ultimately show ?thesis
      unfolding e by (simp del: upt_Suc)
  next
    case False
    then have "Suc idx \<le> NUMBER" by simp
    from Cons.IH [OF this] show ?thesis
      using False by (simp add: upt tk del: upt_Suc)
  qed
qed

lemma best_stars_eq:
  "best_stars stars =
     Inr ((NUMBER, length (combinations3 (length stars))),
          map (\<lambda>(n, tr). line_of stars n tr)
              (zip [1..<Suc NUMBER] (take NUMBER (py_sorted_reverse snd (scored stars)))))"
proof -
  have "1 \<le> NUMBER" by (simp add: NUMBER_def)
  then have "print_loop stars ts 1 =
       map (\<lambda>(n, tr). line_of stars n tr) (zip [1..<Suc NUMBER] (take NUMBER ts))" for ts
    using print_loop_eq [of 1 stars ts] by (simp del: upt_Suc)
  then show ?thesis
    by (simp add: best_stars_def triples_sorted_eq length_py_sorted_reverse scored_def
        del: upt_Suc)
qed

lemma map_fst_scored: "map fst (scored stars) = combinations3 (length stars)"
  by (simp add: scored_def score_def comp_def)

lemma scored_area:
  "((i, j, k), a) \<in> set (scored stars) \<Longrightarrow> area (stars ! i) (stars ! j) (stars ! k) = Inr a"
  by (auto simp: scored_def score_def area_value)

lemma scored_ties_sorted:
  "sorted_wrt (<) (map fst (filter (\<lambda>e. snd e = a) (scored stars)))"
proof -
  have "map fst (filter (\<lambda>e. snd e = a) (scored stars))
        = filter (\<lambda>t. snd (score stars t) = a) (combinations3 (length stars))"
    by (simp add: scored_def filter_map comp_def score_def)
  then show ?thesis
    by (simp add: sorted_wrt_filter sorted_combinations3)
qed

lemma sorted_wrt_ge_hd:
  "sorted_wrt (\<lambda>x y. f y \<le> f x) xs \<Longrightarrow> e \<in> set xs \<Longrightarrow> f e \<le> (f (hd xs) :: real)"
  by (cases xs) auto

lemma area_real_nonneg: "0 \<le> area_real s1 s2 s3"
  using euclid_norm_nonneg by (simp add: area_real_def)

lemma scored_nonneg: "e \<in> set (scored stars) \<Longrightarrow> 0 \<le> snd e"
  by (auto simp: scored_def score_def area_real_nonneg)


lemma radians_180: "radians 180 = pi"
  by (simp add: radians_def)

lemma radians_minus_90: "radians (- 90) = - (pi / 2)"
  by (simp add: radians_def)

lemma cartesian_named:
  "cartesian (named_star n 0 0) = (1, 0, 0)"
  "cartesian (named_star n 90 0) = (0, 0, 1)"
  "cartesian (named_star n (- 90) 0) = (0, 0, - 1)"
  "cartesian (named_star n 0 180) = (- 1, 0, 0)"
  by (simp_all add: cartesian_def named_star_def star_at_def radians_0 radians_90 radians_180
      radians_minus_90)

lemma combinations3_4: "combinations3 4 = [(0, 1, 2), (0, 1, 3), (0, 2, 3), (1, 2, 3)]"
  by code_simp

lemma four_stars_nth:
  "four_stars ! 0 = named_star ''A'' 0 0"
  "four_stars ! 1 = named_star ''B'' 90 0"
  "four_stars ! Suc 0 = named_star ''B'' 90 0"
  "four_stars ! 2 = named_star ''C'' (- 90) 0"
  "four_stars ! 3 = named_star ''D'' 0 180"
  "length four_stars = 4"
  by (simp_all add: four_stars_def)

lemma four_stars_areas:
  "area_real (named_star ''A'' 0 0) (named_star ''B'' 90 0) (named_star ''C'' (- 90) 0) = 0"
  "area_real (named_star ''A'' 0 0) (named_star ''B'' 90 0) (named_star ''D'' 0 180) = 1 / 2"
  "area_real (named_star ''A'' 0 0) (named_star ''C'' (- 90) 0) (named_star ''D'' 0 180) = 1 / 2"
  "area_real (named_star ''B'' 90 0) (named_star ''C'' (- 90) 0) (named_star ''D'' 0 180) = 1"
  by (simp_all add: area_real_def cartesian_named euclid_norm_def vector_product_def vec_sub_def
      v0_def v1_def v2_def)

lemma scored_four_stars:
  "scored four_stars =
     [((0, 1, 2), 0), ((0, 1, 3), 1 / 2), ((0, 2, 3), 1 / 2), ((1, 2, 3), 1)]"
  by (simp add: scored_def score_def four_stars_nth combinations3_4 four_stars_areas)

lemma triples_sorted_four_stars: "triples_sorted four_stars = Inr four_stars_sorted"
  by (simp add: triples_sorted_eq scored_four_stars py_sorted_reverse_def four_stars_sorted_def)

lemma best_stars_four_stars: "best_stars four_stars = Inr ((15, 4), four_stars_lines)"
  by (simp add: best_stars_def triples_sorted_four_stars four_stars_sorted_def four_stars_lines_def
      NUMBER_def line_of_def four_stars_nth named_star_def)

section \<open>Claims on the ranking of triples\<close>

text \<open>
  \<^bold>\<open>C6\<close>. The claim: for every \<open>k\<close>, \<^verbatim>\<open>best_stars\<close> lists the first \<open>k\<close> triples of the
  ranking. The function has no such parameter: the constant \<^verbatim>\<open>NUMBER = 15\<close> is written
  in its body. On the four stars of the small sky it prints all four triples; for
  \<open>k = 1\<close> the claim has it print the first one only.
\<close>

theorem best_stars_lists_first_four:
  "best_stars four_stars = Inr ((15, 4), four_stars_lines)
   \<and> four_stars_lines \<noteq> take 1 four_stars_lines"
  by (simp add: best_stars_four_stars) (simp add: four_stars_lines_def)


text \<open>
  \<^bold>\<open>C6\<close>, as the code has it: for every list of stars, the dictionary built by
  \<^verbatim>\<open>best_stars\<close> holds every index triple \<open>i < j < k < len(stars)\<close> exactly once, each
  with the result of \<^verbatim>\<open>area\<close> on its three stars; \<open>triples_sorted\<close> is in
  non-increasing order of area, triples of equal area in the (lexicographic) order of
  enumeration; the function prints the heading and the first \<^verbatim>\<open>NUMBER = 15\<close> entries (all
  of them when there are fewer), numbered from 1, and the area of the first one is
  greater than or equal to the area of every combination.
\<close>

theorem best_stars_ranking:
  "\<exists>ts lines.
      triples_sorted stars = Inr ts
    \<and> best_stars stars = Inr ((NUMBER, length ts), lines)
    \<and> lines = map (\<lambda>(n, tr). line_of stars n tr) (zip [1..<Suc NUMBER] (take NUMBER ts))
    \<and> length lines = min NUMBER (length ts)
    \<and> distinct (map fst ts)
    \<and> set (map fst ts) = {(i, j, k). i < j \<and> j < k \<and> k < length stars}
    \<and> (\<forall>((i, j, k), a) \<in> set ts. area (stars ! i) (stars ! j) (stars ! k) = Inr a)
    \<and> sorted_wrt (\<lambda>x y. snd y \<le> snd x) ts
    \<and> (\<forall>a. sorted_wrt (<) (map fst (filter (\<lambda>e. snd e = a) ts)))
    \<and> (\<forall>e\<in>set ts. snd e \<le> snd (hd (take NUMBER ts)))"
proof -
  define ts where "ts = py_sorted_reverse snd (scored stars)"
  define lines where
    "lines = map (\<lambda>(n, tr). line_of stars n tr) (zip [1..<Suc NUMBER] (take NUMBER ts))"
  have len: "length ts = length (combinations3 (length stars))"
    by (simp add: ts_def length_py_sorted_reverse scored_def)
  have 1: "triples_sorted stars = Inr ts"
    by (simp add: ts_def triples_sorted_eq)
  have 2: "best_stars stars = Inr ((NUMBER, length ts), lines)"
    unfolding lines_def ts_def len [unfolded ts_def] by (rule best_stars_eq)
  have 3: "length lines = min NUMBER (length ts)"
    by (simp add: lines_def min_def del: upt_Suc)
  have "mset (map fst ts) = image_mset fst (mset (scored stars))"
    by (simp add: ts_def mset_py_sorted_reverse)
  also have "\<dots> = mset (map fst (scored stars))"
    by simp
  finally have ms: "mset (map fst ts) = mset (combinations3 (length stars))"
    by (simp only: map_fst_scored)
  have 4: "distinct (map fst ts)"
    using mset_eq_imp_distinct_iff [OF ms] distinct_combinations3 by blast
  have "set (map fst ts) = set (combinations3 (length stars))"
    using ms by (rule mset_eq_setD)
  then have 5: "set (map fst ts) = {(i, j, k). i < j \<and> j < k \<and> k < length stars}"
    by (simp only: set_combinations3)
  have 6: "\<forall>((i, j, k), a) \<in> set ts. area (stars ! i) (stars ! j) (stars ! k) = Inr a"
    using scored_area by (auto simp: ts_def set_py_sorted_reverse)
  have 7: "sorted_wrt (\<lambda>x y. snd y \<le> snd x) ts"
    unfolding ts_def by (rule py_sorted_reverse_descending)
  have 8: "\<forall>a. sorted_wrt (<) (map fst (filter (\<lambda>e. snd e = a) ts))"
    by (simp add: ts_def py_sorted_reverse_stable scored_ties_sorted)
  have "0 < NUMBER" by (simp add: NUMBER_def)
  then have "hd (take NUMBER ts) = hd ts"
    by (cases ts) (simp_all add: take_Cons')
  then have 9: "\<forall>e\<in>set ts. snd e \<le> snd (hd (take NUMBER ts))"
    using sorted_wrt_ge_hd [OF 7] by simp
  show ?thesis
    using 1 2 lines_def 3 4 5 6 7 8 9 by blast
qed

theorem best_stars_ranking_witness:
  "triples_sorted four_stars = Inr four_stars_sorted
   \<and> best_stars four_stars = Inr ((NUMBER, 4), four_stars_lines)
   \<and> distinct (map fst four_stars_sorted)
   \<and> set (map fst four_stars_sorted) = {(i, j, k). i < j \<and> j < k \<and> k < length four_stars}
   \<and> area (four_stars ! 0) (four_stars ! 1) (four_stars ! 3) = Inr (1 / 2)
   \<and> sorted_wrt (\<lambda>x y. snd y \<le> snd x) four_stars_sorted
   \<and> sorted_wrt (<) (map fst (filter (\<lambda>e. snd e = 1 / 2) four_stars_sorted))
   \<and> snd (((0, 1, 2), 0) :: triple \<times> real) \<le> snd (hd (take NUMBER four_stars_sorted))"
proof -
  obtain ts lines where
    ts: "triples_sorted four_stars = Inr ts"
    and rest: "best_stars four_stars = Inr ((NUMBER, length ts), lines)"
      "distinct (map fst ts)"
      "set (map fst ts) = {(i, j, k). i < j \<and> j < k \<and> k < length four_stars}"
      "\<forall>((i, j, k), a) \<in> set ts. area (four_stars ! i) (four_stars ! j) (four_stars ! k) = Inr a"
      "sorted_wrt (\<lambda>x y. snd y \<le> snd x) ts"
      "\<forall>a. sorted_wrt (<) (map fst (filter (\<lambda>e. snd e = a) ts))"
      "\<forall>e\<in>set ts. snd e \<le> snd (hd (take NUMBER ts))"
    using best_stars_ranking [of four_stars] by blast
  have e: "ts = four_stars_sorted"
    using ts by (simp add: triples_sorted_four_stars)
  have l: "lines = four_stars_lines" "length four_stars_sorted = 4"
    using rest(1) by (simp_all add: best_stars_four_stars four_stars_sorted_def)
  have m: "((0, 1, 3), 1 / 2) \<in> set four_stars_sorted" "((0, 1, 2), 0) \<in> set four_stars_sorted"
    by (simp_all add: four_stars_sorted_def)
  have a: "area (four_stars ! 0) (four_stars ! 1) (four_stars ! 3) = Inr (1 / 2)"
    using rest(4) m(1) unfolding e by fastforce
  have h: "snd (((0, 1, 2), 0) :: triple \<times> real) \<le> snd (hd (take NUMBER four_stars_sorted))"
    using rest(7) m(2) unfolding e by blast
  note r = rest [unfolded e]
  have b: "best_stars four_stars = Inr ((NUMBER, 4), four_stars_lines)"
    using r(1) l by simp
  have t: "sorted_wrt (<) (map fst (filter (\<lambda>e. snd e = 1 / 2) four_stars_sorted))"
    using r(6) by blast
  show ?thesis
    by (intro conjI) (fact ts [unfolded e] b r(2) r(3) a r(5) t h)+
qed

text \<open>
  \<^bold>\<open>C9\<close>. \<^verbatim>\<open>area\<close> returns, for every three stars, a value greater than or equal to 0
  (it does not raise); hence every score in the ranking of \<^verbatim>\<open>best_stars\<close> is
  non-negative.
\<close>

theorem area_nonnegative:
  "(\<exists>a. area s1 s2 s3 = Inr a \<and> 0 \<le> a)
   \<and> (\<forall>ts. triples_sorted stars = Inr ts \<longrightarrow> (\<forall>e\<in>set ts. 0 \<le> snd e))"
proof -
  have "\<forall>e\<in>set (py_sorted_reverse snd (scored stars)). 0 \<le> snd e"
    using scored_nonneg by (simp add: set_py_sorted_reverse)
  then show ?thesis
    using area_real_nonneg [of s1 s2 s3] by (simp add: area_value triples_sorted_eq)
qed


theorem area_nonnegative_witness:
  "(\<exists>a. area (star_at 0 0) (star_at 0 90) (star_at 90 0) = Inr a \<and> 0 \<le> a)
   \<and> triples_sorted four_stars = Inr four_stars_sorted
   \<and> 0 \<le> snd (((0, 1, 3), 1 / 2) :: triple \<times> real)"
proof -
  have m: "((0, 1, 3), 1 / 2) \<in> set four_stars_sorted"
    by (simp add: four_stars_sorted_def)
  have "\<forall>e\<in>set four_stars_sorted. 0 \<le> snd e"
    using area_nonnegative [of "star_at 0 0" "star_at 0 90" "star_at 90 0" four_stars]
      triples_sorted_four_stars by blast
  with m have "0 \<le> snd (((0, 1, 3), 1 / 2) :: triple \<times> real)"
    by blast
  then show ?thesis
    using area_nonnegative [of "star_at 0 0" "star_at 0 90" "star_at 90 0" four_stars]
      triples_sorted_four_stars by blast
qed

end
